theory Spec2Isabelle
  imports Complex_Main
begin

section \<open>Values, errors and NumPy primitives\<close>

text \<open>
  The embedding follows the Python sources \<^verbatim>\<open>biot_savart.py\<close> and \<^verbatim>\<open>geom.py\<close> under
  NumPy 1.x (1.10 up to 1.26: the sources use \<^verbatim>\<open>np.complex_\<close>, which NumPy 2 removed, and
  in-place operators cast with the rule \<^verbatim>\<open>same_kind\<close> since 1.10).

  Floating-point numbers are modelled by exact reals (\<^typ>\<open>real\<close> for \<^verbatim>\<open>float64\<close>,
  \<^typ>\<open>complex\<close> for \<^verbatim>\<open>complex128\<close>): rounding is abstracted away. What is kept is
  the difference between a finite number and the result of a division by the float zero,
  which NumPy computes (as NaN or an infinity, with a warning) instead of raising.

  Every Python exception the modelled code can raise is a value of \<open>py_error\<close>.
\<close>

datatype py_error = ValueError | TypeError | IndexError | OverflowError | AttributeError

datatype 'a npval = Fin 'a | NonFinite
  \<comment> \<open>\<open>NonFinite\<close>: a component with a NaN or infinite part\<close>

type_synonym 'a vec3 = "'a \<times> 'a \<times> 'a"
  \<comment> \<open>a one-dimensional array of exactly three components\<close>

definition vmap :: "('a \<Rightarrow> 'b) \<Rightarrow> 'a vec3 \<Rightarrow> 'b vec3" where
  "vmap f a = (case a of (a0, a1, a2) \<Rightarrow> (f a0, f a1, f a2))"

definition vsub :: "complex vec3 \<Rightarrow> complex vec3 \<Rightarrow> complex vec3" where
  "vsub a b = (case a of (a0, a1, a2) \<Rightarrow> case b of (b0, b1, b2) \<Rightarrow>
     (a0 - b0, a1 - b1, a2 - b2))"

definition vadd :: "complex vec3 \<Rightarrow> complex vec3 \<Rightarrow> complex vec3" where
  "vadd a b = (case a of (a0, a1, a2) \<Rightarrow> case b of (b0, b1, b2) \<Rightarrow>
     (a0 + b0, a1 + b1, a2 + b2))"

definition linalg_norm :: "complex vec3 \<Rightarrow> real" where
  \<comment> \<open>\<^verbatim>\<open>np.linalg.norm\<close> of a one-dimensional complex array\<close>
  "linalg_norm a = (case a of (a0, a1, a2) \<Rightarrow>
     sqrt ((cmod a0)\<^sup>2 + (cmod a1)\<^sup>2 + (cmod a2)\<^sup>2))"

definition cross :: "complex vec3 \<Rightarrow> complex vec3 \<Rightarrow> complex vec3" where
  \<comment> \<open>\<^verbatim>\<open>np.cross\<close> of two arrays of three components (no conjugation)\<close>
  "cross a b = (case a of (a0, a1, a2) \<Rightarrow> case b of (b0, b1, b2) \<Rightarrow>
     (a1 * b2 - a2 * b1, a2 * b0 - a0 * b2, a0 * b1 - a1 * b0))"

definition np_divide :: "complex \<Rightarrow> real \<Rightarrow> complex npval" where
  \<comment> \<open>a \<^verbatim>\<open>complex128\<close> component divided by a \<^verbatim>\<open>float64\<close>: a zero divisor
      gives NaN or an infinity and a RuntimeWarning, never an exception\<close>
  "np_divide z d = (if d = 0 then NonFinite else Fin (z / of_real d))"

definition np_scale :: "complex \<Rightarrow> complex npval \<Rightarrow> complex npval" where
  \<comment> \<open>a finite complex scalar times a component: NaN and infinite parts stay non-finite\<close>
  "np_scale c x = (case x of Fin z \<Rightarrow> Fin (c * z) | NonFinite \<Rightarrow> NonFinite)"

section \<open>The segment field contributor: \<^verbatim>\<open>BiotSolver.__db_scale\<close>\<close>

text \<open>
  \<^verbatim>\<open>dL\<close> is the Python list of the two end points of the sub-segment, each built in
  \<^verbatim>\<open>__solve_segment\<close> as an array of three \<^verbatim>\<open>complex128\<close> components; \<^verbatim>\<open>point\<close> is a column
  of the \<^verbatim>\<open>float64\<close> array of observation points.
\<close>

definition db_scale :: "complex vec3 \<times> complex vec3 \<Rightarrow> real vec3 \<Rightarrow> complex \<Rightarrow> complex npval vec3" where
  "db_scale dL point complex_current =
     (let mu = 4 * pi * (1 / 10 ^ 7);
          vdL = vsub (snd dL) (fst dL);
          rp = vmap (\<lambda>c. c / 2) (vadd (snd dL) (fst dL));
          r = vsub (vmap of_real point) rp;
          r3 = linalg_norm r ^ 3;
          integrand = vmap (\<lambda>c. np_divide c r3) (cross vdL r)
      in vmap (np_scale (of_real (mu / (4 * pi)) * complex_current)) integrand)"

section \<open>The wire and the NumPy array operations of the solver\<close>

text \<open>
  A \<^verbatim>\<open>Coil\<close> object. \<^verbatim>\<open>coordz\<close> is an array of shape \<open>(3, N)\<close>: the rows of the \<open>x\<close>, \<open>y\<close> and
  \<open>z\<close> coordinates of the \<open>N\<close> vertices, all of length \<open>N\<close>. The class defines no \<^verbatim>\<open>__eq__\<close>,
  so \<^verbatim>\<open>==\<close> on two coils compares their identities (\<open>obj_id\<close>).
\<close>

record Coil =
  obj_id :: nat
  I :: complex
  center :: "real list"
  radius :: real
  num_points :: int
  coordz :: "real list vec3"

definition column :: "'a list vec3 \<Rightarrow> nat \<Rightarrow> 'a vec3" where
  \<comment> \<open>\<^verbatim>\<open>a[:,p]\<close> of an array of shape \<open>(3, P)\<close>, for \<open>p < P\<close>\<close>
  "column a p = (case a of (X, Y, Z) \<Rightarrow> (X ! p, Y ! p, Z ! p))"

definition norm3 :: "real vec3 \<Rightarrow> real" where
  \<comment> \<open>\<^verbatim>\<open>np.linalg.norm\<close> of a one-dimensional real array\<close>
  "norm3 u = (case u of (a, b, c) \<Rightarrow> sqrt (a\<^sup>2 + b\<^sup>2 + c\<^sup>2))"

definition np_broadcast1 :: "(real \<Rightarrow> real \<Rightarrow> real) \<Rightarrow> real list \<Rightarrow> real list \<Rightarrow> py_error + real list" where
  \<comment> \<open>a binary operator on two one-dimensional arrays: the lengths must be equal, or one
      of them 1; otherwise NumPy raises ValueError (operands could not be broadcast)\<close>
  "np_broadcast1 f xs ys =
     (if length xs = length ys then Inr (map2 f xs ys)
      else if length ys = 1 then Inr (map (\<lambda>x. f x (hd ys)) xs)
      else if length xs = 1 then Inr (map (f (hd xs)) ys)
      else Inl ValueError)"

definition arange :: "int \<Rightarrow> int \<Rightarrow> real list" where
  \<comment> \<open>\<^verbatim>\<open>np.arange(a, b)\<close>: the integers from \<open>a\<close> up to \<open>b - 1\<close>, none when \<open>b \<le> a\<close>\<close>
  "arange a b = map of_int [a..b - 1]"

definition int_floor_div :: "real \<Rightarrow> real \<Rightarrow> py_error + int" where
  \<comment> \<open>\<^verbatim>\<open>int(np.floor(a / b))\<close> for \<open>0 \<le> a\<close>: the quotient by the float zero is an
      infinity (NaN for \<open>0 / 0\<close>), and \<^verbatim>\<open>int\<close> raises OverflowError on an infinity and
      ValueError on NaN\<close>
  "int_floor_div a b =
     (if b = 0 then (if a = 0 then Inl ValueError else Inl OverflowError)
      else Inr \<lfloor>a / b\<rfloor>)"

definition add_column_row :: "real vec3 \<Rightarrow> real list \<Rightarrow> real list list" where
  \<comment> \<open>\<^verbatim>\<open>c[:,None] + w\<close>: shapes \<open>(3, 1)\<close> and \<open>(n,)\<close> broadcast to \<open>(3, n)\<close>, entry
      \<open>[i][j]\<close> being \<open>c[i] + w[j]\<close>\<close>
  "add_column_row c w = (case c of (c0, c1, c2) \<Rightarrow>
     [map (\<lambda>b. c0 + b) w, map (\<lambda>b. c1 + b) w, map (\<lambda>b. c2 + b) w])"

definition append_column :: "real list list \<Rightarrow> real vec3 \<Rightarrow> real list list" where
  \<comment> \<open>\<^verbatim>\<open>np.append(d, c[:,None], axis=1)\<close> for \<open>d\<close> of three rows\<close>
  "append_column d c = (case c of (c0, c1, c2) \<Rightarrow> map2 (\<lambda>row x. row @ [x]) d [c0, c1, c2])"

definition assign_block :: "nat \<Rightarrow> real list list \<Rightarrow> py_error + complex list list" where
  \<comment> \<open>\<^verbatim>\<open>segments[i] = src\<close>: the slot has shape \<open>(P, 3)\<close> and type \<^verbatim>\<open>complex128\<close>; \<open>src\<close> of
      shape \<open>(r, c)\<close> is broadcast into it when \<open>r\<close> is \<open>P\<close> or 1 and \<open>c\<close> is 3 or 1, and
      NumPy raises ValueError (could not broadcast input array) otherwise\<close>
  "assign_block P src =
     (let r = length src; c = (if src = [] then 0 else length (hd src))
      in if (r = P \<or> r = 1) \<and> (c = 3 \<or> c = 1)
         then Inr (map (\<lambda>a. map (\<lambda>b. of_real (src ! (if r = 1 then 0 else a) ! (if c = 1 then 0 else b)))
                              [0..<3]) [0..<P])
         else Inl ValueError)"

definition iadd_float_complex :: "real list list \<Rightarrow> complex npval vec3 \<Rightarrow> py_error + real list list" where
  \<comment> \<open>\<^verbatim>\<open>B += dB\<close> for \<open>B\<close> of type \<^verbatim>\<open>float64\<close> and \<open>dB\<close> of type \<^verbatim>\<open>complex128\<close>: the sum is
      \<^verbatim>\<open>complex128\<close>, which the in-place operator may not cast to \<^verbatim>\<open>float64\<close> (rule
      \<^verbatim>\<open>same_kind\<close>); NumPy raises UFuncTypeError, a TypeError, whatever the values are\<close>
  "iadd_float_complex B dB = Inl TypeError"

definition iadd_rows :: "complex list list \<Rightarrow> real list list \<Rightarrow> complex list list" where
  \<comment> \<open>\<^verbatim>\<open>B += s\<close> for \<open>B\<close> of shape \<open>(P, 3)\<close> and \<open>s\<close> of shape \<open>(1, 3)\<close>: the one row of \<open>s\<close>
      is broadcast, so it is added to every row of \<open>B\<close>\<close>
  "iadd_rows B s = map (\<lambda>row. map2 (\<lambda>b x. b + of_real x) row (hd s)) B"

section \<open>The segment discretizer: \<^verbatim>\<open>BiotSolver.__discretize\<close>\<close>

text \<open>
  The result is an array of three rows (the \<open>x\<close>, \<open>y\<close>, \<open>z\<close> coordinates of the emitted
  points), or the empty list for an index past the last vertex. Reading vertex \<open>n + 1\<close>
  of a wire of \<open>n + 1\<close> vertices raises IndexError.

  Where \<open>segment_length = 0\<close> on the path past the comparison with \<open>dL\<close>, NumPy computes
  \<open>v\<close> as NaN; that path ends in an exception whatever \<open>v\<close> is (\<open>dL = 0\<close> fails in
  \<open>int_floor_div\<close>, \<open>dL < 0\<close> gives \<open>n_segments = 0\<close> and an empty \<^verbatim>\<open>arange\<close>, which does
  not broadcast against the three components of \<open>v\<close>), so \<open>v\<close> is kept real.
\<close>

definition discretize :: "'a Coil_scheme \<Rightarrow> real \<Rightarrow> nat \<Rightarrow> py_error + real list list" where
  "discretize wire dL n =
     (case coordz wire of (X, Y, Z) \<Rightarrow>
        if length X < n + 1 then Inr []
        else if length X < n + 2 then Inl IndexError
        else
          let x1 = X ! n; y1 = Y ! n; z1 = Z ! n;
              x2 = X ! (n + 1); y2 = Y ! (n + 1); z2 = Z ! (n + 1);
              segment = [[x1, x2], [y1, y2], [z1, z2]];
              u = (x2 - x1, y2 - y1, z2 - z1);
              segment_length = norm3 u
          in if segment_length < dL then Inr segment
             else case int_floor_div segment_length dL of
               Inl e \<Rightarrow> Inl e
             | Inr n_segments \<Rightarrow>
                 let v = (case u of (u0, u1, u2) \<Rightarrow>
                            [dL * u0 / segment_length, dL * u1 / segment_length,
                             dL * u2 / segment_length])
                 in case np_broadcast1 (*) v (arange 1 (n_segments + 1)) of
                      Inl e \<Rightarrow> Inl e
                    | Inr w \<Rightarrow>
                        let d_segment = add_column_row (x1, y1, z1) w
                        in if of_int n_segments \<noteq> segment_length / dL
                           then Inr (append_column d_segment (x2, y2, z2))
                           else Inr d_segment)"

section \<open>The solver: \<^verbatim>\<open>BiotSolver.__solve_segment\<close> and \<^verbatim>\<open>BiotSolver.solve\<close>\<close>

text \<open>
  \<^verbatim>\<open>__solve_segment\<close> receives \<^verbatim>\<open>segments[i]\<close>, a \<^verbatim>\<open>complex128\<close> array of shape \<open>(P, 3)\<close>. It
  reads rows 0, 1, 2 (IndexError when there are fewer) at the columns \<open>i\<close> and \<open>i + 1\<close>,
  for \<open>i\<close> in \<^verbatim>\<open>range(0, len(d_segment[0]) - 1)\<close>, and adds each contribution in place to
  its accumulator \<^verbatim>\<open>np.zeros((1,3))\<close>, an array of type \<^verbatim>\<open>float64\<close>.
\<close>

fun solve_segment_loop ::
  "complex list list \<Rightarrow> real vec3 \<Rightarrow> complex \<Rightarrow> nat list \<Rightarrow> real list list \<Rightarrow> py_error + real list list" where
  "solve_segment_loop d_segment point complex_current [] B = Inr B"
| "solve_segment_loop d_segment point complex_current (i # is) B =
     (if length d_segment < 3 then Inl IndexError
      else
        let dL = ((d_segment ! 0 ! i, d_segment ! 1 ! i, d_segment ! 2 ! i),
                  (d_segment ! 0 ! (i + 1), d_segment ! 1 ! (i + 1), d_segment ! 2 ! (i + 1)))
        in case iadd_float_complex B (db_scale dL point complex_current) of
             Inl e \<Rightarrow> Inl e
           | Inr B' \<Rightarrow> solve_segment_loop d_segment point complex_current is B')"

definition solve_segment :: "complex list list \<Rightarrow> real vec3 \<Rightarrow> complex \<Rightarrow> py_error + real list list" where
  "solve_segment d_segment point complex_current =
     (if d_segment = [] then Inl IndexError
      else solve_segment_loop d_segment point complex_current
             [0..<length (d_segment ! 0) - 1] [[0, 0, 0]])"

text \<open>
  \<^verbatim>\<open>solve\<close>: \<open>points\<close> is an array of shape \<open>(3, P)\<close>. The buffer \<^verbatim>\<open>segments\<close> has shape
  \<open>(num_segments, P, 3)\<close>, and \<^verbatim>\<open>np.zeros\<close> raises ValueError for a negative dimension. Slot
  \<open>i\<close> of the buffer is written once and read only in the same iteration, so the model
  keeps the slot alone (\<open>seg\<close>). The inner loop runs over the points, the outer one over
  the edges; an exception leaves both.
\<close>

fun solve_points ::
  "complex list list \<Rightarrow> real list vec3 \<Rightarrow> complex \<Rightarrow> nat list \<Rightarrow> complex list list
    \<Rightarrow> py_error + complex list list" where
  "solve_points seg points complex_current [] B = Inr B"
| "solve_points seg points complex_current (p # ps) B =
     (case solve_segment seg (column points p) complex_current of
        Inl e \<Rightarrow> Inl e
      | Inr s \<Rightarrow> solve_points seg points complex_current ps (iadd_rows B s))"

fun solve_edges ::
  "'a Coil_scheme \<Rightarrow> real list vec3 \<Rightarrow> real \<Rightarrow> nat list \<Rightarrow> complex list list
    \<Rightarrow> py_error + complex list list" where
  "solve_edges wire points dL [] B = Inr B"
| "solve_edges wire points dL (i # is) B =
     (case discretize wire dL i of
        Inl e \<Rightarrow> Inl e
      | Inr d \<Rightarrow>
          (case assign_block (length (fst points)) d of
             Inl e \<Rightarrow> Inl e
           | Inr seg \<Rightarrow>
               (case solve_points seg points (I wire) [0..<length (fst points)] B of
                  Inl e \<Rightarrow> Inl e
                | Inr B' \<Rightarrow> solve_edges wire points dL is B')))"

definition solve :: "'a Coil_scheme \<Rightarrow> real list vec3 \<Rightarrow> real \<Rightarrow> py_error + complex list list" where
  "solve wire points dL =
     (let B = replicate (length (fst points)) [0, 0, 0];
          num_segments = int (length (fst (coordz wire))) - 1
      in if num_segments < 0 then Inl ValueError
         else solve_edges wire points dL [0..<nat num_segments] B)"

section \<open>The inductance integrator: \<^verbatim>\<open>Coil.calc_inductance\<close>\<close>

text \<open>
  \<^verbatim>\<open>np.linspace(a, b, num)\<close> raises ValueError for a negative number of samples, gives the
  one sample \<open>a\<close> for \<open>num = 1\<close>, and \<open>num\<close> evenly spaced samples from \<open>a\<close> to \<open>b\<close> otherwise.
\<close>

definition linspace :: "real \<Rightarrow> real \<Rightarrow> int \<Rightarrow> py_error + real list" where
  "linspace a b num =
     (if num < 0 then Inl ValueError
      else if num = 1 then Inr [a]
      else Inr (map (\<lambda>i. a + of_nat i * ((b - a) / of_int (num - 1))) [0..<nat num]))"

text \<open>
  The class \<^verbatim>\<open>BiotSolver\<close> has one public method, \<^verbatim>\<open>solve\<close>; its other attributes are the
  private methods, whose names Python mangles. Looking up any other name on an instance
  raises AttributeError.
\<close>

definition BiotSolver_method ::
  "string \<Rightarrow> ('a Coil_scheme \<Rightarrow> real list vec3 \<Rightarrow> real \<Rightarrow> py_error + complex list list) option" where
  "BiotSolver_method name = (if name = ''solve'' then Some solve else None)"

definition row_norms :: "complex list list \<Rightarrow> real list" where
  \<comment> \<open>\<^verbatim>\<open>np.linalg.norm(b, axis=1)\<close>\<close>
  "row_norms b = map (\<lambda>row. sqrt (sum_list (map (\<lambda>z. (cmod z)\<^sup>2) row))) b"

definition py_max :: "real list \<Rightarrow> py_error + real" where
  \<comment> \<open>the builtin \<^verbatim>\<open>max\<close>: ValueError on an empty sequence\<close>
  "py_max xs = (if xs = [] then Inl ValueError else Inr (fold max (tl xs) (hd xs)))"

definition first_index :: "real list \<Rightarrow> real \<Rightarrow> nat" where
  \<comment> \<open>\<^verbatim>\<open>np.where(xs == m)[0][0]\<close> for \<open>m\<close> an element of \<open>xs\<close>\<close>
  "first_index xs m = length (takeWhile (\<lambda>x. x \<noteq> m) xs)"

text \<open>
  The truncation of a self-inductance computation (the body of \<^verbatim>\<open>if self == mutual_coil\<close>):
  the profile is cut after the first index of its maximum, and the sample points are cut
  to the same length.
\<close>

definition truncate_at_peak :: "real list \<Rightarrow> real list \<Rightarrow> py_error + real list \<times> real list" where
  "truncate_at_peak b_norm points =
     (case py_max b_norm of
        Inl e \<Rightarrow> Inl e
      | Inr m \<Rightarrow>
          let max_index = first_index b_norm m;
              b_norm' = take (max_index + 1) b_norm;
              points' = take (length b_norm') points
          in Inr (b_norm', points'))"

text \<open>
  The rest of \<^verbatim>\<open>calc_inductance\<close> after the solver call. \<^verbatim>\<open>scipy.integrate.simps\<close> is
  library code outside the repository: it is the parameter \<open>simps\<close>. The last division is
  one of \<^verbatim>\<open>float64\<close> scalars, which does not raise for a zero current.
\<close>

definition integrate_flux ::
  "(real list \<Rightarrow> real list \<Rightarrow> py_error + real) \<Rightarrow> bool \<Rightarrow> complex list list \<Rightarrow> real list \<Rightarrow> complex
    \<Rightarrow> py_error + real npval" where
  "integrate_flux simps is_self b points complex_current =
     (case (if is_self then truncate_at_peak (row_norms b) points
            else Inr (row_norms b, points)) of
        Inl e \<Rightarrow> Inl e
      | Inr (b_norm, points') \<Rightarrow>
          let current = cmod complex_current;
              area_circle = map (\<lambda>p. 2 * pi * p) points'
          in case np_broadcast1 (*) area_circle b_norm of
               Inl e \<Rightarrow> Inl e
             | Inr integrand \<Rightarrow>
                 (case simps integrand points' of
                    Inl e \<Rightarrow> Inl e
                  | Inr flux \<Rightarrow>
                      Inr (if current = 0 then NonFinite else Fin (flux / current))))"

text \<open>
  \<^verbatim>\<open>calc_inductance\<close> with \<^verbatim>\<open>disp=False\<close> (the plot is not modelled). The sample line is built
  from the target coil, then the method \<^verbatim>\<open>Solve\<close> is looked up on a \<^verbatim>\<open>BiotSolver\<close>.
\<close>

definition calc_inductance ::
  "(real list \<Rightarrow> real list \<Rightarrow> py_error + real) \<Rightarrow> Coil \<Rightarrow> Coil \<Rightarrow> py_error + real npval" where
  "calc_inductance simps self mutual_coil =
     (case linspace 0 (radius mutual_coil) (num_points mutual_coil) of
        Inl e \<Rightarrow> Inl e
      | Inr points \<Rightarrow>
          if length (center mutual_coil) < 3 then Inl IndexError
          else
            let x = map (\<lambda>p. 1 * (center mutual_coil ! 0)) points;
                y = map (\<lambda>p. 1 * (center mutual_coil ! 1)) points;
                z = map (\<lambda>p. 1 * (center mutual_coil ! 2) + p) points;
                integral_points = (x, y, z)
            in case BiotSolver_method ''Solve'' of
                 None \<Rightarrow> Inl AttributeError
               | Some Solve \<Rightarrow>
                   (case Solve self integral_points (1 / 10) of
                      Inl e \<Rightarrow> Inl e
                    | Inr b \<Rightarrow>
                        integrate_flux simps (obj_id self = obj_id mutual_coil) b points (I self)))"

section \<open>The accumulation of the solver, for any segment solver\<close>










section \<open>The solver with its arrays in a store\<close>

text \<open>
  The same \<^verbatim>\<open>solve\<close>, with every array it touches held in a store: the wire and the
  observation points it is given, and the two arrays it allocates, \<^verbatim>\<open>B\<close> and \<^verbatim>\<open>segments\<close>.
  \<^verbatim>\<open>B += ...\<close> and \<^verbatim>\<open>segments[i] = ...\<close> are the only writes of the source; each is an update
  of the store. An exception leaves the store as it is at that moment. What \<open>h_B\<close> and
  \<open>h_segments\<close> hold before the call is what an earlier call left behind.
\<close>

record solver_heap =
  h_wire :: Coil
  h_points :: "real list vec3"
  h_B :: "complex list list"
  h_segments :: "complex list list list"

fun solve_points_st :: "nat \<Rightarrow> nat list \<Rightarrow> solver_heap \<Rightarrow> py_error option \<times> solver_heap" where
  "solve_points_st i [] h = (None, h)"
| "solve_points_st i (p # ps) h =
     (case solve_segment (h_segments h ! i) (column (h_points h) p) (I (h_wire h)) of
        Inl e \<Rightarrow> (Some e, h)
      | Inr s \<Rightarrow> solve_points_st i ps (h\<lparr>h_B := iadd_rows (h_B h) s\<rparr>))"

fun solve_edges_st :: "real \<Rightarrow> nat list \<Rightarrow> solver_heap \<Rightarrow> py_error option \<times> solver_heap" where
  "solve_edges_st dL [] h = (None, h)"
| "solve_edges_st dL (i # is) h =
     (case discretize (h_wire h) dL i of
        Inl e \<Rightarrow> (Some e, h)
      | Inr d \<Rightarrow>
          (case assign_block (length (fst (h_points h))) d of
             Inl e \<Rightarrow> (Some e, h)
           | Inr seg \<Rightarrow>
               (case solve_points_st i [0..<length (fst (h_points h))]
                       (h\<lparr>h_segments := (h_segments h)[i := seg]\<rparr>) of
                  (Some e, h') \<Rightarrow> (Some e, h')
                | (None, h') \<Rightarrow> solve_edges_st dL is h')))"

definition solve_st :: "real \<Rightarrow> solver_heap \<Rightarrow> (py_error + complex list list) \<times> solver_heap" where
  "solve_st dL h =
     (let h1 = h\<lparr>h_B := replicate (length (fst (h_points h))) [0, 0, 0]\<rparr>;
          num_segments = int (length (fst (coordz (h_wire h)))) - 1
      in if num_segments < 0 then (Inl ValueError, h1)
         else
           let h2 = h1\<lparr>h_segments :=
                      replicate (nat num_segments)
                        (replicate (length (fst (h_points h))) [0, 0, 0])\<rparr>
           in case solve_edges_st dL [0..<nat num_segments] h2 of
                (Some e, h') \<Rightarrow> (Inl e, h')
              | (None, h') \<Rightarrow> (Inr (h_B h'), h'))"

definition outcome :: "py_error option \<times> solver_heap \<Rightarrow> py_error + complex list list" where
  \<comment> \<open>what a loop of the store model hands on: the exception, or the accumulator\<close>
  "outcome r = (case fst r of Some e \<Rightarrow> Inl e | None \<Rightarrow> Inr (h_B (snd r)))"

section \<open>Concrete wires and coils\<close>

definition one_vertex :: Coil where
  \<comment> \<open>a wire of the single vertex \<open>(0, 0, 0)\<close>\<close>
  "one_vertex = \<lparr>obj_id = 0, I = 1, center = [0, 0, 0], radius = 1, num_points = 1,
     coordz = ([0], [0], [0])\<rparr>"

definition unit_edge :: Coil where
  \<comment> \<open>one edge, from \<open>(0, 0, 0)\<close> to \<open>(1, 0, 0)\<close>\<close>
  "unit_edge = \<lparr>obj_id = 0, I = 1, center = [0, 0, 0], radius = 1, num_points = 2,
     coordz = ([0, 1], [0, 0], [0, 0])\<rparr>"

definition unit_edge_z :: Coil where
  \<comment> \<open>one edge, from \<open>(0, 0, 0)\<close> to \<open>(0, 0, 1)\<close>\<close>
  "unit_edge_z = \<lparr>obj_id = 0, I = 1, center = [0, 0, 0], radius = 1, num_points = 2,
     coordz = ([0, 0], [0, 0], [0, 1])\<rparr>"

definition point_edge :: Coil where
  \<comment> \<open>one edge of length zero: both vertices are \<open>(0, 0, 0)\<close>\<close>
  "point_edge = \<lparr>obj_id = 0, I = 1, center = [0, 0, 0], radius = 1, num_points = 2,
     coordz = ([0, 0], [0, 0], [0, 0])\<rparr>"

definition coil_a :: Coil where
  "coil_a = \<lparr>obj_id = 1, I = 1, center = [0, 0, 0], radius = 1, num_points = 3,
     coordz = ([0, 0, 0], [0, 1, 0], [1, 0, 1])\<rparr>"

definition coil_b :: Coil where
  "coil_b = \<lparr>obj_id = 2, I = 1, center = [1, 0, 0], radius = 2, num_points = 3,
     coordz = ([0, 0, 0], [0, 2, 0], [2, 0, 2])\<rparr>"



definition heap0 :: solver_heap where
  \<comment> \<open>a store holding the one-vertex wire, two observation points and stale arrays\<close>
  "heap0 = \<lparr>h_wire = one_vertex, h_points = ([0, 0], [1, 2], [0, 0]),
     h_B = [[5, 5, 5]], h_segments = []\<rparr>"

section \<open>Properties of the segment field contributor\<close>

lemma linalg_norm_eq_0_iff: "linalg_norm r = 0 \<longleftrightarrow> r = (0, 0, 0)"
proof -
  obtain a b c where r: "r = (a, b, c)"
    by (cases r) auto
  have "sqrt ((cmod a)\<^sup>2 + (cmod b)\<^sup>2 + (cmod c)\<^sup>2) = 0 \<longleftrightarrow> a = 0 \<and> b = 0 \<and> c = 0"
  proof
    assume "sqrt ((cmod a)\<^sup>2 + (cmod b)\<^sup>2 + (cmod c)\<^sup>2) = 0"
    then have s: "(cmod a)\<^sup>2 + (cmod b)\<^sup>2 + (cmod c)\<^sup>2 = 0"
      by simp
    have "0 \<le> (cmod a)\<^sup>2" "0 \<le> (cmod b)\<^sup>2" "0 \<le> (cmod c)\<^sup>2"
      by simp_all
    with s have "(cmod a)\<^sup>2 = 0 \<and> (cmod b)\<^sup>2 = 0 \<and> (cmod c)\<^sup>2 = 0"
      by linarith
    then show "a = 0 \<and> b = 0 \<and> c = 0"
      by simp
  next
    assume "a = 0 \<and> b = 0 \<and> c = 0"
    then show "sqrt ((cmod a)\<^sup>2 + (cmod b)\<^sup>2 + (cmod c)\<^sup>2) = 0"
      by simp
  qed
  then show ?thesis
    by (simp add: r linalg_norm_def)
qed

lemma vsub_eq_0_iff: "vsub a b = (0, 0, 0) \<longleftrightarrow> a = b"
  by (cases a, cases b) (auto simp: vsub_def)

text \<open>
  Claim C6. For a sub-segment from \<open>p0\<close> to \<open>p1\<close>, an observation point that is not the
  midpoint of the sub-segment and a complex current \<open>cur\<close>, the contributed field is
  \<open>(mu0 / (4 pi)) * cur * (vdL x r) / |r|^3\<close> in every component, where \<open>vdL = p1 - p0\<close>,
  \<open>rp = (p1 + p0) / 2\<close>, \<open>r = point - rp\<close> and \<open>mu0 = 4 pi / 10^7\<close>; the result is finite.
\<close>

theorem db_scale_biot_savart:
  fixes p0 p1 :: "complex vec3" and point :: "real vec3" and cur :: complex
  assumes "vmap of_real point \<noteq> vmap (\<lambda>c. c / 2) (vadd p1 p0)"
  shows "db_scale (p0, p1) point cur =
           vmap (\<lambda>c. Fin (of_real (4 * pi * (1 / 10 ^ 7) / (4 * pi)) * cur *
                   (c / of_real
                     (linalg_norm (vsub (vmap of_real point) (vmap (\<lambda>c. c / 2) (vadd p1 p0))) ^ 3))))
             (cross (vsub p1 p0) (vsub (vmap of_real point) (vmap (\<lambda>c. c / 2) (vadd p1 p0))))"
proof -
  have "vsub (vmap of_real point) (vmap (\<lambda>c. c / 2) (vadd p1 p0)) \<noteq> (0, 0, 0)"
    using assms by (simp add: vsub_eq_0_iff)
  then have "linalg_norm (vsub (vmap of_real point) (vmap (\<lambda>c. c / 2) (vadd p1 p0))) ^ 3 \<noteq> 0"
    by (simp add: linalg_norm_eq_0_iff)
  then show ?thesis
    unfolding db_scale_def Let_def fst_conv snd_conv
    by (cases "cross (vsub p1 p0)
          (vsub (vmap of_real point) (vmap (\<lambda>c. c / 2) (vadd p1 p0)))")
       (simp add: vmap_def np_divide_def np_scale_def)
qed

theorem db_scale_biot_savart_witness:
  "vmap of_real (1, 1, 0) \<noteq> vmap (\<lambda>c. c / 2) (vadd (2, 0, 0) (0, 0, 0)) \<and>
   db_scale ((0, 0, 0), (2, 0, 0)) (1, 1, 0) 1 = (Fin 0, Fin 0, Fin (2 / 10 ^ 7))"
proof -
  have h: "vmap of_real (1 :: real, 1 :: real, 0 :: real)
             \<noteq> vmap (\<lambda>c :: complex. c / 2) (vadd (2, 0, 0) (0, 0, 0))"
    by (simp add: vmap_def vadd_def)
  show ?thesis
    using h db_scale_biot_savart [OF h, of 1]
    by (simp add: vmap_def vadd_def vsub_def cross_def linalg_norm_def)
qed

text \<open>
  Claim C4, as the code has it. When the observation point is the midpoint of the
  sub-segment (\<open>r3 = 0\<close>), the contributor raises nothing: it returns a vector whose three
  components are non-finite (the NaN of \<open>0 / 0\<close>).
\<close>

theorem db_scale_at_midpoint:
  fixes p0 p1 :: "complex vec3" and point :: "real vec3" and cur :: complex
  assumes "vmap of_real point = vmap (\<lambda>c. c / 2) (vadd p1 p0)"
  shows "db_scale (p0, p1) point cur = (NonFinite, NonFinite, NonFinite)"
proof -
  have "linalg_norm (vsub (vmap of_real point) (vmap (\<lambda>c. c / 2) (vadd p1 p0))) = 0"
    using assms by (simp add: linalg_norm_eq_0_iff vsub_eq_0_iff)
  then show ?thesis
    unfolding db_scale_def Let_def fst_conv snd_conv
    by (cases "cross (vsub p1 p0)
          (vsub (vmap of_real point) (vmap (\<lambda>c. c / 2) (vadd p1 p0)))")
       (simp add: vmap_def np_divide_def np_scale_def)
qed

theorem db_scale_at_midpoint_witness:
  "vmap of_real (1, 0, 0) = vmap (\<lambda>c. c / 2) (vadd (2, 0, 0) (0, 0, 0)) \<and>
   db_scale ((0, 0, 0), (2, 0, 0)) (1, 0, 0) 1 = (NonFinite, NonFinite, NonFinite)"
proof -
  have h: "vmap of_real (1 :: real, 0 :: real, 0 :: real)
             = vmap (\<lambda>c :: complex. c / 2) (vadd (2, 0, 0) (0, 0, 0))"
    by (simp add: vmap_def vadd_def)
  show ?thesis
    using h db_scale_at_midpoint [OF h, of 1] by simp
qed

text \<open>
  The claim as the specification states it (a failure at the midpoint instead of a result
  with NaN) does not hold: one unit of current in the sub-segment from the origin to
  \<open>(2, 0, 0)\<close>, observed at its midpoint \<open>(1, 0, 0)\<close>, returns three non-finite components.
\<close>

theorem db_scale_midpoint_counterexample:
  "db_scale ((0, 0, 0), (2, 0, 0)) (1, 0, 0) 1 = (NonFinite, NonFinite, NonFinite)"
  by (simp add: db_scale_def vsub_def vadd_def vmap_def linalg_norm_def cross_def
      np_divide_def np_scale_def Let_def)

section \<open>Properties of the segment discretizer\<close>

lemmas discretize_eval = discretize_def norm3_def int_floor_div_def np_broadcast1_def arange_def
  add_column_row_def append_column_def Let_def upto_rec1

lemma norm3_nonneg: "0 \<le> norm3 u"
  by (cases u) (simp add: norm3_def)

text \<open>An edge shorter than \<open>dL\<close> comes back as its two end points.\<close>

lemma discretize_short_edge:
  assumes "coordz wire = (X, Y, Z)" and "n + 1 < length X"
    and "norm3 (X ! (n + 1) - X ! n, Y ! (n + 1) - Y ! n, Z ! (n + 1) - Z ! n) < dL"
  shows "discretize wire dL n =
           Inr [[X ! n, X ! (n + 1)], [Y ! n, Y ! (n + 1)], [Z ! n, Z ! (n + 1)]]"
  using assms by (simp add: discretize_def Let_def)

text \<open>
  A negative \<open>dL\<close> makes \<open>n_segments\<close> at most zero, so \<^verbatim>\<open>np.arange(1, n_segments + 1)\<close> is
  empty and its product with the three components of \<open>v\<close> raises ValueError.
\<close>

lemma discretize_negative_step:
  assumes "coordz wire = (X, Y, Z)" and "n + 1 < length X" and "dL < 0"
  shows "discretize wire dL n = Inl ValueError"
proof -
  let ?L = "norm3 (X ! (n + 1) - X ! n, Y ! (n + 1) - Y ! n, Z ! (n + 1) - Z ! n)"
  have L: "0 \<le> ?L"
    by (rule norm3_nonneg)
  then have "?L / dL \<le> 0"
    using assms(3) by (simp add: divide_nonneg_neg)
  then have "\<lfloor>?L / dL\<rfloor> \<le> 0"
    by (simp add: floor_le_zero)
  then have "arange 1 (\<lfloor>?L / dL\<rfloor> + 1) = []"
    by (simp add: arange_def)
  then show ?thesis
    using assms L by (simp add: discretize_def Let_def int_floor_div_def np_broadcast1_def)
qed

text \<open>
  Every array the discretizer returns for an edge of the wire has three rows.
\<close>

lemma discretize_rows:
  assumes "discretize wire dL n = Inr d" and "n < length (fst (coordz wire))"
  shows "length d = 3"
proof -
  obtain X Y Z where c: "coordz wire = (X, Y, Z)"
    by (cases "coordz wire") auto
  show ?thesis
    using assms
    by (auto simp: discretize_def c Let_def add_column_row_def append_column_def
        split: if_splits sum.splits)
qed

text \<open>
  Claim C2 fails on the code. The edge from \<open>(0, 0, 0)\<close> to \<open>(1, 0, 0)\<close> with \<open>dL = 1/2\<close>
  should give the points at 0, 1/2 and 1; the product of the three components of \<open>v\<close> with
  \<^verbatim>\<open>np.arange(1, 3)\<close> raises ValueError instead. The edge from \<open>(0, 0, 0)\<close> to \<open>(0, 0, 1)\<close> with
  \<open>dL = 1\<close> should give its two end points; the discretizer returns the three points
  \<open>(0, 0, 0)\<close>, \<open>(0, 0, 0)\<close> and \<open>(1, 1, 1)\<close> (the columns of the array).
\<close>

theorem discretize_misses_subdivision:
  "discretize unit_edge (1 / 2) 0 = Inl ValueError \<and>
   discretize unit_edge_z 1 0 = Inr [[0, 0, 1], [0, 0, 1], [0, 0, 1]]"
  by (simp add: discretize_eval unit_edge_def unit_edge_z_def)

text \<open>
  Claim C5, as the code has it. With \<open>dL = 0\<close> the discretizer fails in \<^verbatim>\<open>int\<close>: with
  ValueError for an edge of length zero (the quotient is NaN) and with OverflowError
  otherwise (the quotient is infinite). An edge of length zero with \<open>0 < dL\<close> is shorter
  than \<open>dL\<close> and comes back as its two end points.
\<close>

theorem discretize_degenerate:
  assumes "coordz wire = (X, Y, Z)" and "n + 1 < length X"
  shows "(dL = 0 \<longrightarrow>
            discretize wire dL n =
              Inl (if norm3 (X ! (n + 1) - X ! n, Y ! (n + 1) - Y ! n, Z ! (n + 1) - Z ! n) = 0
                   then ValueError else OverflowError)) \<and>
         (0 < dL \<and> norm3 (X ! (n + 1) - X ! n, Y ! (n + 1) - Y ! n, Z ! (n + 1) - Z ! n) = 0 \<longrightarrow>
            discretize wire dL n =
              Inr [[X ! n, X ! (n + 1)], [Y ! n, Y ! (n + 1)], [Z ! n, Z ! (n + 1)]])"
  using assms norm3_nonneg [of "(X ! (n + 1) - X ! n, Y ! (n + 1) - Y ! n, Z ! (n + 1) - Z ! n)"]
  by (simp add: discretize_def Let_def int_floor_div_def)

theorem discretize_degenerate_witness:
  "coordz point_edge = ([0, 0], [0, 0], [0, 0]) \<and> 0 + 1 < length [0 :: real, 0] \<and>
   discretize point_edge 0 0 = Inl ValueError \<and>
   discretize unit_edge 0 0 = Inl OverflowError \<and>
   discretize point_edge 1 0 = Inr [[0, 0], [0, 0], [0, 0]]"
proof -
  have c: "coordz point_edge = ([0, 0], [0, 0], [0, 0])"
    by (simp add: point_edge_def)
  have c': "coordz unit_edge = ([0, 1], [0, 0], [0, 0])"
    by (simp add: unit_edge_def)
  have n: "0 + 1 < length [0 :: real, 0]"
    by simp
  have n': "0 + 1 < length [0 :: real, 1]"
    by simp
  show ?thesis
    using c n discretize_degenerate [OF c n, of 0] discretize_degenerate [OF c n, of 1]
      discretize_degenerate [OF c' n', of 0]
    by (simp add: norm3_def)
qed

text \<open>
  The claim as the specification states it (an edge of length zero fails) does not hold:
  the edge from \<open>(0, 0, 0)\<close> to \<open>(0, 0, 0)\<close> with \<open>dL = 1\<close> returns its two end points.
\<close>

theorem discretize_zero_length_counterexample:
  "discretize point_edge 1 0 = Inr [[0, 0], [0, 0], [0, 0]]"
  by (simp add: discretize_eval point_edge_def)

section \<open>Properties of the solver\<close>

subsection \<open>When the solver returns\<close>

lemma assign_block_shape:
  assumes "assign_block P d = Inr seg" and "length d = 3"
  shows "P = 3 \<and> length seg = 3 \<and> length (seg ! 0) = 3"
  using assms by (auto simp: assign_block_def Let_def split: if_splits)

text \<open>
  A slot of \<^verbatim>\<open>segments\<close> has three columns, so the loop of \<^verbatim>\<open>__solve_segment\<close> runs, and its
  first in-place addition raises TypeError.
\<close>

lemma solve_segment_TypeError:
  assumes "length seg = 3" and "length (seg ! 0) = 3"
  shows "solve_segment seg pt cur = Inl TypeError"
proof -
  have "[0..<length (seg ! 0) - 1] = 0 # [1..<2]"
    using assms by (simp add: upt_conv_Cons)
  moreover have "seg \<noteq> []"
    using assms by auto
  ultimately show ?thesis
    using assms by (simp add: solve_segment_def iadd_float_complex_def)
qed

lemma solve_edges_raises:
  assumes "i < length (fst (coordz wire))"
  shows "\<exists>e. solve_edges wire points dL (i # rest) B = Inl e"
proof (cases "discretize wire dL i")
  case (Inl e)
  then show ?thesis by simp
next
  case (Inr d)
  then have d: "length d = 3"
    using assms by (rule discretize_rows)
  show ?thesis
  proof (cases "assign_block (length (fst points)) d")
    case (Inl e)
    with Inr show ?thesis by simp
  next
    case seg: (Inr seg)
    from assign_block_shape [OF seg d]
    have P: "length (fst points) = 3" and s: "length seg = 3" "length (seg ! 0) = 3"
      by simp_all
    have "[0..<length (fst points)] = 0 # [1..<3]"
      by (simp add: P upt_conv_Cons)
    then show ?thesis
      using Inr seg solve_segment_TypeError [OF s] by simp
  qed
qed

text \<open>
  The solver returns for a wire of exactly one vertex, and then with zeros: with no
  vertex \<^verbatim>\<open>np.zeros\<close> refuses the negative dimension, and with an edge the first iteration
  raises (in the discretizer, in the assignment to \<^verbatim>\<open>segments[i]\<close>, or in
  \<^verbatim>\<open>__solve_segment\<close>).
\<close>

lemma solve_returns_iff:
  "solve wire points dL = Inr B \<longleftrightarrow>
     length (fst (coordz wire)) = 1 \<and> B = replicate (length (fst points)) [0, 0, 0]"
proof (cases "length (fst (coordz wire))")
  case 0
  then show ?thesis by (simp add: solve_def)
next
  case (Suc m)
  show ?thesis
  proof (cases m)
    case 0
    with Suc show ?thesis by (auto simp: solve_def)
  next
    case (Suc k)
    have "nat (int (length (fst (coordz wire))) - 1) = Suc k"
      using \<open>length (fst (coordz wire)) = Suc m\<close> Suc by simp
    moreover have "[0..<Suc k] = 0 # [1..<Suc k]"
      by (simp add: upt_conv_Cons del: upt_Suc)
    ultimately have "[0..<nat (int (length (fst (coordz wire))) - 1)] = 0 # [1..<Suc k]"
      by simp
    moreover have "0 < length (fst (coordz wire))"
      using \<open>length (fst (coordz wire)) = Suc m\<close> by simp
    ultimately obtain e where "solve wire points dL = Inl e"
      using solve_edges_raises [of 0 wire points dL "[1..<Suc k]"]
      by (auto simp: solve_def Let_def \<open>length (fst (coordz wire)) = Suc m\<close>)
    then show ?thesis
      using \<open>length (fst (coordz wire)) = Suc m\<close> Suc by simp
  qed
qed

lemma solve_raises_with_edge:
  assumes "2 \<le> length (fst (coordz wire))"
  shows "\<exists>e. solve wire points dL = Inl e"
proof (cases "solve wire points dL")
  case (Inl e)
  then show ?thesis by simp
next
  case (Inr B)
  then have "length (fst (coordz wire)) = 1"
    by (simp add: solve_returns_iff)
  with assms show ?thesis by simp
qed

text \<open>
  Claim C1 fails on the code. For the wire of the one edge from \<open>(0, 0, 0)\<close> to
  \<open>(1, 0, 0)\<close>, the one observation point \<open>(0, 1, 0)\<close> and \<open>dL = 1/2\<close>, the solver
  returns no field vector: it raises ValueError.
\<close>

theorem solve_raises_on_edge:
  "solve unit_edge ([0], [1], [0]) (1 / 2) = Inl ValueError"
  by (simp add: solve_def discretize_eval unit_edge_def)

subsection \<open>The solver is the accumulation at its own segment solver\<close>









subsection \<open>The rows of the result\<close>







subsection \<open>Linearity in the current\<close>

text \<open>The outcome of \<open>solve\<close> itself does not depend on the current of the wire.\<close>

lemma solve_segment_loop_current:
  "solve_segment_loop d pt cur js B = solve_segment_loop d pt cur' js B"
  by (cases js) (simp_all add: iadd_float_complex_def)

lemma solve_segment_current:
  "solve_segment d pt cur = solve_segment d pt cur'"
  by (simp add: solve_segment_def solve_segment_loop_current [of _ _ cur _ _ cur'])

lemma discretize_current: "discretize (wire\<lparr>I := x\<rparr>) dL n = discretize wire dL n"
  by (simp add: discretize_def)







lemma solve_current: "solve (wire\<lparr>I := x\<rparr>) points dL = solve wire points dL"
proof -
  have p: "solve_points seg points cur ps B = solve_points seg points cur' ps B"
    for seg cur cur' ps B
    by (induction ps arbitrary: B)
       (simp_all add: solve_segment_current [of seg _ cur cur'] split: sum.splits)
  have "solve_edges (wire\<lparr>I := x\<rparr>) points dL js B = solve_edges wire points dL js B" for js B
    by (induction js arbitrary: B)
       (simp_all add: discretize_current p [of _ x _ _ "I wire"] split: sum.splits)
  then show ?thesis
    by (simp add: solve_def)
qed



subsection \<open>The solver reads its inputs and writes only its own arrays\<close>

lemma solve_points_st_frame:
  "h_wire (snd (solve_points_st i ps h)) = h_wire h \<and>
   h_points (snd (solve_points_st i ps h)) = h_points h \<and>
   h_segments (snd (solve_points_st i ps h)) = h_segments h"
  by (induction ps arbitrary: h) (auto split: sum.splits)

lemma solve_points_st_outcome:
  "outcome (solve_points_st i ps h) =
     solve_points (h_segments h ! i) (h_points h) (I (h_wire h)) ps (h_B h)"
  by (induction ps arbitrary: h) (auto simp: outcome_def split: sum.splits)

lemma solve_edges_st_frame:
  "h_wire (snd (solve_edges_st dL js h)) = h_wire h \<and>
   h_points (snd (solve_edges_st dL js h)) = h_points h \<and>
   length (h_segments (snd (solve_edges_st dL js h))) = length (h_segments h)"
proof (induction js arbitrary: h)
  case Nil
  then show ?case by simp
next
  case (Cons j js)
  show ?case
  proof (cases "discretize (h_wire h) dL j")
    case (Inl e)
    then show ?thesis by simp
  next
    case (Inr d)
    show ?thesis
    proof (cases "assign_block (length (fst (h_points h))) d")
      case (Inl e)
      with Inr show ?thesis by simp
    next
      case seg: (Inr seg)
      let ?h1 = "h\<lparr>h_segments := (h_segments h)[j := seg]\<rparr>"
      let ?r = "solve_points_st j [0..<length (fst (h_points h))] ?h1"
      have f: "h_wire (snd ?r) = h_wire h" "h_points (snd ?r) = h_points h"
        "h_segments (snd ?r) = (h_segments h)[j := seg]"
        using solve_points_st_frame [of j "[0..<length (fst (h_points h))]" ?h1] by simp_all
      show ?thesis
      proof (cases "fst ?r")
        case None
        then have "solve_edges_st dL (j # js) h = solve_edges_st dL js (snd ?r)"
          using Inr seg by (cases ?r) simp
        then show ?thesis
          using Cons.IH [of "snd ?r"] f by simp
      next
        case (Some e)
        then have "solve_edges_st dL (j # js) h = (Some e, snd ?r)"
          using Inr seg by (cases ?r) simp
        then show ?thesis
          using f by simp
      qed
    qed
  qed
qed

lemma solve_edges_st_outcome:
  assumes "\<forall>j \<in> set js. j < length (h_segments h)"
  shows "outcome (solve_edges_st dL js h) =
           solve_edges (h_wire h) (h_points h) dL js (h_B h)"
  using assms
proof (induction js arbitrary: h)
  case Nil
  then show ?case by (simp add: outcome_def)
next
  case (Cons j js)
  show ?case
  proof (cases "discretize (h_wire h) dL j")
    case (Inl e)
    then show ?thesis by (simp add: outcome_def)
  next
    case (Inr d)
    show ?thesis
    proof (cases "assign_block (length (fst (h_points h))) d")
      case (Inl e)
      with Inr show ?thesis by (simp add: outcome_def)
    next
      case seg: (Inr seg)
      let ?h1 = "h\<lparr>h_segments := (h_segments h)[j := seg]\<rparr>"
      let ?r = "solve_points_st j [0..<length (fst (h_points h))] ?h1"
      have j: "j < length (h_segments h)"
        using Cons.prems by simp
      have f: "h_wire (snd ?r) = h_wire h" "h_points (snd ?r) = h_points h"
        "h_segments (snd ?r) = (h_segments h)[j := seg]"
        using solve_points_st_frame [of j "[0..<length (fst (h_points h))]" ?h1] by simp_all
      have o: "outcome ?r =
          solve_points seg (h_points h) (I (h_wire h)) [0..<length (fst (h_points h))] (h_B h)"
        using solve_points_st_outcome [of j "[0..<length (fst (h_points h))]" ?h1] j by simp
      show ?thesis
      proof (cases "fst ?r")
        case None
        then have step: "solve_edges_st dL (j # js) h = solve_edges_st dL js (snd ?r)"
          using Inr seg by (cases ?r) simp
        have B: "solve_points seg (h_points h) (I (h_wire h))
            [0..<length (fst (h_points h))] (h_B h) = Inr (h_B (snd ?r))"
          using o None by (simp add: outcome_def)
        have "\<forall>j \<in> set js. j < length (h_segments (snd ?r))"
          using Cons.prems f by simp
        from Cons.IH [OF this] show ?thesis
          using step f B Inr seg by simp
      next
        case (Some e)
        then have step: "solve_edges_st dL (j # js) h = (Some e, snd ?r)"
          using Inr seg by (cases ?r) simp
        have "solve_points seg (h_points h) (I (h_wire h))
            [0..<length (fst (h_points h))] (h_B h) = Inl e"
          using o Some by (simp add: outcome_def)
        then show ?thesis
          using step Inr seg by (simp add: outcome_def)
      qed
    qed
  qed
qed

text \<open>The result of the store model is the result of \<open>solve\<close> on the wire and the points.\<close>

lemma solve_st_result: "fst (solve_st dL h) = solve (h_wire h) (h_points h) dL"
proof (cases "int (length (fst (coordz (h_wire h)))) - 1 < 0")
  case True
  then show ?thesis by (simp add: solve_st_def solve_def)
next
  case False
  let ?E = "nat (int (length (fst (coordz (h_wire h)))) - 1)"
  let ?P = "length (fst (h_points h))"
  let ?h2 = "h\<lparr>h_B := replicate ?P [0, 0, 0], h_segments := replicate ?E (replicate ?P [0, 0, 0])\<rparr>"
  have "\<forall>j \<in> set [0..<?E]. j < length (h_segments ?h2)"
    by simp
  from solve_edges_st_outcome [OF this, of dL]
  have "outcome (solve_edges_st dL [0..<?E] ?h2) =
      solve_edges (h_wire h) (h_points h) dL [0..<?E] (replicate ?P [0, 0, 0])"
    by simp
  then show ?thesis
    using False
    by (cases "solve_edges_st dL [0..<?E] ?h2")
       (auto simp: solve_st_def solve_def Let_def outcome_def split: option.splits)
qed

lemma solve_st_frame:
  "h_wire (snd (solve_st dL h)) = h_wire h \<and> h_points (snd (solve_st dL h)) = h_points h"
proof (cases "int (length (fst (coordz (h_wire h)))) - 1 < 0")
  case True
  then show ?thesis by (simp add: solve_st_def)
next
  case False
  let ?E = "nat (int (length (fst (coordz (h_wire h)))) - 1)"
  let ?P = "length (fst (h_points h))"
  let ?h2 = "h\<lparr>h_B := replicate ?P [0, 0, 0], h_segments := replicate ?E (replicate ?P [0, 0, 0])\<rparr>"
  from solve_edges_st_frame [of dL "[0..<?E]" ?h2] show ?thesis
    using False
    by (cases "solve_edges_st dL [0..<?E] ?h2")
       (auto simp: solve_st_def Let_def split: option.splits)
qed

text \<open>
  Claim C10. A second call of the solver, in the store the first call left, returns what
  the first call returned; a call leaves the wire (its coordinates and its current) and
  the observation points as they were; and its result is a function of the wire, the
  points and \<open>dL\<close> alone, whatever else the store holds.
\<close>

theorem solve_st_idempotent:
  "fst (solve_st dL (snd (solve_st dL h))) = fst (solve_st dL h) \<and>
   h_wire (snd (solve_st dL h)) = h_wire h \<and>
   h_points (snd (solve_st dL h)) = h_points h \<and>
   fst (solve_st dL h) = solve (h_wire h) (h_points h) dL"
  by (simp add: solve_st_result solve_st_frame)

theorem solve_st_idempotent_witness:
  "fst (solve_st 1 (snd (solve_st 1 heap0))) = Inr [[0, 0, 0], [0, 0, 0]] \<and>
   fst (solve_st 1 heap0) = Inr [[0, 0, 0], [0, 0, 0]] \<and>
   h_wire (snd (solve_st 1 heap0)) = one_vertex \<and>
   h_points (snd (solve_st 1 heap0)) = ([0, 0], [1, 2], [0, 0])"
proof -
  have "solve one_vertex ([0, 0], [1, 2], [0, 0]) 1 = Inr [[0, 0, 0], [0, 0, 0]]"
    by (simp add: solve_def one_vertex_def)
  then show ?thesis
    using solve_st_idempotent [of 1 heap0] by (simp add: heap0_def)
qed

section \<open>Properties of the inductance integrator\<close>

text \<open>
  \<^verbatim>\<open>calc_inductance\<close> never returns: the sample line may fail to build, and once it is
  built the lookup of \<^verbatim>\<open>Solve\<close> raises AttributeError.
\<close>

lemma calc_inductance_never_returns:
  "\<exists>e. calc_inductance simps self mutual_coil = Inl e"
  by (simp add: calc_inductance_def BiotSolver_method_def Let_def split: sum.splits)

lemma calc_inductance_AttributeError:
  assumes "0 \<le> num_points mutual_coil" and "3 \<le> length (center mutual_coil)"
  shows "calc_inductance simps self mutual_coil = Inl AttributeError"
  using assms
  by (simp add: calc_inductance_def linspace_def BiotSolver_method_def Let_def)

text \<open>
  Claim C8 fails on the code. For the source coil \<open>coil_a\<close> and the target coil \<open>coil_b\<close>
  (three samples, centre \<open>(1, 0, 0)\<close>, radius 2), whatever the quadrature is,
  \<^verbatim>\<open>calc_inductance\<close> returns no inductance: it raises AttributeError, since the solver has
  a method \<^verbatim>\<open>solve\<close> and none called \<^verbatim>\<open>Solve\<close>.
\<close>

theorem calc_inductance_raises:
  "\<forall>simps. calc_inductance simps coil_a coil_b = Inl AttributeError"
  by (simp add: calc_inductance_def linspace_def BiotSolver_method_def coil_b_def Let_def)

text \<open>
  Claim C9 fails on the code. A self-inductance computation (\<open>coil_a\<close> against itself,
  three samples) should cut the integration domain after the first index of the maximum
  field magnitude and integrate over it, or fail for a domain of fewer than two samples.
  It does neither: whatever the quadrature is, it raises AttributeError at the lookup of
  \<^verbatim>\<open>Solve\<close>, before any field magnitude exists and before the lines that cut the domain.
\<close>

theorem self_inductance_raises:
  "\<forall>simps. calc_inductance simps coil_a coil_a = Inl AttributeError"
  by (simp add: calc_inductance_def linspace_def BiotSolver_method_def coil_a_def Let_def)

lemma py_max_eq: "xs \<noteq> [] \<Longrightarrow> py_max xs = Inr (Max (set xs))"
proof (cases xs)
  case Nil
  assume "xs \<noteq> []"
  with Nil show ?thesis by simp
next
  case (Cons a list)
  then show ?thesis
    using Max.set_eq_fold [of a list] by (simp add: py_max_def)
qed

lemma first_index_less:
  assumes "m \<in> set xs"
  shows "first_index xs m < length xs"
proof -
  have "takeWhile (\<lambda>x. x \<noteq> m) xs \<noteq> xs"
    using assms by (simp add: takeWhile_eq_all_conv)
  moreover have "takeWhile (\<lambda>x. x \<noteq> m) xs = take (length (takeWhile (\<lambda>x. x \<noteq> m) xs)) xs"
    by (rule takeWhile_eq_take)
  moreover have "length (takeWhile (\<lambda>x. x \<noteq> m) xs) \<le> length xs"
    by (rule length_takeWhile_le)
  ultimately have "length (takeWhile (\<lambda>x. x \<noteq> m) xs) \<noteq> length xs"
    by (metis take_all order_refl)
  with \<open>length (takeWhile (\<lambda>x. x \<noteq> m) xs) \<le> length xs\<close> show ?thesis
    by (simp add: first_index_def)
qed

text \<open>
  The lines that cut the domain, which no call reaches. They cut the profile of field
  magnitudes and the sample points after the first index \<open>k\<close> at which the profile
  attains its maximum (every earlier magnitude is strictly smaller), and they check no
  size: \<open>k + 1\<close> samples are kept, so at least one.
\<close>

lemma truncate_at_peak_first_maximum:
  assumes "b_norm \<noteq> []"
  shows "\<exists>k < length b_norm.
           (\<forall>j < length b_norm. b_norm ! j \<le> b_norm ! k) \<and>
           (\<forall>j < k. b_norm ! j < b_norm ! k) \<and>
           truncate_at_peak b_norm points = Inr (take (k + 1) b_norm, take (k + 1) points)"
proof -
  let ?m = "Max (set b_norm)"
  let ?k = "first_index b_norm ?m"
  have m: "?m \<in> set b_norm"
    using assms by simp
  then have k: "?k < length b_norm"
    by (rule first_index_less)
  have at: "b_norm ! ?k = ?m"
    using nth_length_takeWhile [of "\<lambda>x. x \<noteq> ?m" b_norm] k
    by (simp add: first_index_def)
  have le: "\<forall>j < length b_norm. b_norm ! j \<le> b_norm ! ?k"
    by (simp add: at)
  have lt: "\<forall>j < ?k. b_norm ! j < b_norm ! ?k"
  proof (intro allI impI)
    fix j assume j: "j < ?k"
    then have "b_norm ! j \<noteq> ?m"
      unfolding first_index_def using nth_mem set_takeWhileD takeWhile_nth
      by (metis (mono_tags, lifting))
    moreover have "b_norm ! j \<le> ?m"
      using j k by simp
    ultimately show "b_norm ! j < b_norm ! ?k"
      by (simp add: at)
  qed
  have "length (take (?k + 1) b_norm) = ?k + 1"
    using k by simp
  then have "truncate_at_peak b_norm points = Inr (take (?k + 1) b_norm, take (?k + 1) points)"
    using assms by (simp add: truncate_at_peak_def py_max_eq Let_def del: length_take)
  with k le lt show ?thesis
    by blast
qed

end
